theory Spec2Isabelle
  imports Main "HOL-Library.Multiset"
begin

section \<open>JavaScript strings and numbers\<close>

text \<open>
  A JavaScript string is modelled as a \<^typ>\<open>string\<close>: a list of characters, each standing
  for one code unit below 256. A JavaScript number is an integer or \<open>NaN\<close>; the source
  only produces numbers through \<open>parseInt\<close> and integer arithmetic, so no
  fractional value arises. Integers are unbounded here, while the source's doubles are
  exact up to \<open>2^53\<close>.
\<close>

datatype number = NaN | Num int

definition isSpace :: "char \<Rightarrow> bool" where
  \<comment> \<open>the white space of \<open>trim\<close>, of the regular expression class \<open>\s\<close> and of \<open>parseInt\<close>\<close>
  "isSpace c = (c = CHR 0x20 \<or> c = CHR 0x09 \<or> c = CHR 0x0A \<or> c = CHR 0x0B
                \<or> c = CHR 0x0C \<or> c = CHR 0x0D \<or> c = CHR 0xA0)"

definition digitVal :: "char \<Rightarrow> nat option" where
  \<comment> \<open>the value of a decimal digit, code units 48 to 57\<close>
  "digitVal c =
    (let n = (of_char c :: nat) in if 48 \<le> n \<and> n \<le> 57 then Some (n - 48) else None)"

definition isDigit :: "char \<Rightarrow> bool" where
  "isDigit c = (digitVal c \<noteq> None)"

definition digitsVal :: "string \<Rightarrow> nat" where
  "digitsVal ds = foldl (\<lambda>a c. 10 * a + the (digitVal c)) 0 ds"

definition toLowerChar :: "char \<Rightarrow> char" where
  \<comment> \<open>\<open>A\<close>..\<open>Z\<close> and the upper-case letters of the range \<open>0xC0\<close>..\<open>0xDE\<close>\<close>
  "toLowerChar c =
    (let n = (of_char c :: nat)
     in if (65 \<le> n \<and> n \<le> 90) \<or> (192 \<le> n \<and> n \<le> 222 \<and> n \<noteq> 215)
        then char_of (n + 32) else c)"

definition toLowerCase :: "string \<Rightarrow> string" where
  "toLowerCase s = map toLowerChar s"

definition trim :: "string \<Rightarrow> string" where
  "trim s = rev (dropWhile isSpace (rev (dropWhile isSpace s)))"

definition startsWith :: "string \<Rightarrow> string \<Rightarrow> bool" where
  "startsWith s p = (take (length p) s = p)"

fun joinWith :: "string \<Rightarrow> string list \<Rightarrow> string" where
  "joinWith sep [] = []"
| "joinWith sep [x] = x"
| "joinWith sep (x # y # ys) = x @ sep @ joinWith sep (y # ys)"

fun splitOn :: "char \<Rightarrow> string \<Rightarrow> string list" where
  \<comment> \<open>\<open>s.split(d)\<close> for a one-character separator\<close>
  "splitOn d [] = [[]]"
| "splitOn d (c # cs) =
    (if c = d then [] # splitOn d cs
     else (case splitOn d cs of t # ts \<Rightarrow> (c # t) # ts | [] \<Rightarrow> [[c]]))"

fun splitWs :: "string \<Rightarrow> string list" where
  \<comment> \<open>\<open>s.split(/\s+/)\<close>: a maximal run of white space is one separator\<close>
  "splitWs [] = [[]]"
| "splitWs (c # cs) =
    (if isSpace c
     then (case cs of d # _ \<Rightarrow> if isSpace d then splitWs cs else [] # splitWs cs
           | [] \<Rightarrow> [] # splitWs cs)
     else (case splitWs cs of t # ts \<Rightarrow> (c # t) # ts | [] \<Rightarrow> [[c]]))"

definition parseInt :: "string \<Rightarrow> number" where
  \<comment> \<open>\<open>parseInt(s, 10)\<close>: leading white space, an optional sign, the longest run of digits\<close>
  "parseInt s =
    (let t = dropWhile isSpace s;
         neg = (t \<noteq> [] \<and> hd t = CHR ''-'');
         u = (if t \<noteq> [] \<and> (hd t = CHR ''-'' \<or> hd t = CHR ''+'') then tl t else t);
         ds = takeWhile isDigit u
     in if ds = [] then NaN
        else Num (if neg then - int (digitsVal ds) else int (digitsVal ds)))"

definition parseIntOpt :: "string option \<Rightarrow> number" where
  \<comment> \<open>\<open>parseInt(undefined, 10)\<close> reads the text \<open>undefined\<close>, which has no digit\<close>
  "parseIntOpt x = (case x of None \<Rightarrow> NaN | Some s \<Rightarrow> parseInt s)"

definition isNaN :: "number \<Rightarrow> bool" where
  "isNaN x = (x = NaN)"

definition nth_opt :: "'a list \<Rightarrow> nat \<Rightarrow> 'a option" where
  \<comment> \<open>\<open>xs[i]\<close>: \<open>undefined\<close> beyond the end\<close>
  "nth_opt xs i = (if i < length xs then Some (xs ! i) else None)"

fun showNat :: "nat \<Rightarrow> string" where
  "showNat n =
    (if n < 10 then [char_of (48 + n)] else showNat (n div 10) @ [char_of (48 + n mod 10)])"

declare showNat.simps [simp del]

definition showInt :: "int \<Rightarrow> string" where
  "showInt i = (if i < 0 then CHR ''-'' # showNat (nat (- i)) else showNat (nat i))"

definition showNumber :: "number \<Rightarrow> string" where
  \<comment> \<open>the text of a number in a template literal and in \<open>join\<close>\<close>
  "showNumber x = (case x of NaN \<Rightarrow> ''NaN'' | Num i \<Rightarrow> showInt i)"

section \<open>parser.js\<close>

definition MARVEL_RIVALS_RANKS :: "string list" where
  "MARVEL_RIVALS_RANKS =
    [''Bronze'', ''Silver'', ''Gold'', ''Platinum'', ''Diamond'',
     ''Grandmaster'', ''Celestial'', ''Eternity'', ''One Above All'']"

definition OVERWATCH_RANKS :: "string list" where
  "OVERWATCH_RANKS =
    [''Bronze'', ''Silver'', ''Gold'', ''Platinum'', ''Diamond'',
     ''Master'', ''Grandmaster'', ''Champion'', ''Top 500'']"

definition DEADLOCK_RANKS :: "string list" where
  "DEADLOCK_RANKS =
    [''Initiate'', ''Seeker'', ''Alchemist'', ''Arcanist'', ''Ritualist'',
     ''Emissary'', ''Archon'', ''Oracle'', ''Phantom Ascendant'', ''Eternus'']"

record rankObj =
  rank :: string
  tier :: number

definition matchMentionAt :: "string \<Rightarrow> string option" where
  \<comment> \<open>the pattern \<open><@!?(\d+)>\<close> anchored at the start of the text; the digits on a match\<close>
  "matchMentionAt s =
    (if startsWith s ''<@''
     then (let r = drop 2 s;
               r' = (if r \<noteq> [] \<and> hd r = CHR ''!'' then tl r else r);
               ds = takeWhile isDigit r';
               rest = dropWhile isDigit r'
           in if ds \<noteq> [] \<and> rest \<noteq> [] \<and> hd rest = CHR ''>'' then Some ds else None)
     else None)"

fun extractUserId :: "string \<Rightarrow> string option" where
  \<comment> \<open>the leftmost match of the pattern anywhere in the mention\<close>
  "extractUserId [] = None"
| "extractUserId (c # cs) =
    (case matchMentionAt (c # cs) of Some ds \<Rightarrow> Some ds | None \<Rightarrow> extractUserId cs)"

definition sanitize :: "string \<Rightarrow> string" where
  "sanitize text' =
    take 200 (trim (filter (\<lambda>c. c \<notin> set [CHR ''<'', CHR ''>'', CHR 0x27, CHR 0x22,
                                         CHR 0x60, CHR '';'', CHR ''('', CHR '')'']) text'))"

definition rankMatches :: "string \<Rightarrow> string \<Rightarrow> bool" where
  "rankMatches candidate r = (toLowerCase r = toLowerCase candidate)"

text \<open>
  \<open>validRanks.some(p)\<close> holds exactly when \<open>validRanks.find(p)\<close> returns an element, so
  the loop body is written as one case distinction on \<open>find\<close>. \<open>parts[i]\<close> is tested for
  truthiness: it must exist and be non-empty.
\<close>

fun matchPrefix :: "string list \<Rightarrow> string list \<Rightarrow> nat \<Rightarrow> (string \<times> number option) option" where
  \<comment> \<open>the loop \<open>for (i = parts.length; i > 0; i--)\<close> of \<open>parseRankWithTier\<close>: the rank name
      found and the tier read (\<open>None\<close> while \<open>tier\<close> is still \<open>null\<close>)\<close>
  "matchPrefix validRanks parts 0 = None"
| "matchPrefix validRanks parts (Suc i) =
    (let candidate = joinWith '' '' (take (Suc i) parts)
     in case find (rankMatches candidate) validRanks of
          Some rankName \<Rightarrow>
            Some (rankName,
                  (case nth_opt parts (Suc i) of
                     None \<Rightarrow> None
                   | Some p \<Rightarrow> if p = [] then None else Some (parseInt p)))
        | None \<Rightarrow> matchPrefix validRanks parts i)"

definition parseRankWithTier :: "string \<Rightarrow> string list \<Rightarrow> int \<Rightarrow> rankObj option" where
  "parseRankWithTier rankString validRanks maxTier =
    (let parts = splitWs (trim rankString)
     in case matchPrefix validRanks parts (length parts) of
          None \<Rightarrow> None
        | Some (rankName, tier0) \<Rightarrow>
            if rankName = [] then None
            else
              (let tier1 = (case tier0 of
                              Some (Num t) \<Rightarrow>
                                if t \<noteq> 0 \<and> (t < 1 \<or> t > maxTier) then None else Some (Num t)
                            | other \<Rightarrow> other)
               in Some \<lparr> rank = rankName,
                         tier = (case tier1 of
                                   Some (Num t) \<Rightarrow> if t = 0 then Num 1 else Num t
                                 | _ \<Rightarrow> Num 1) \<rparr>))"

definition getRankSortValue :: "rankObj option \<Rightarrow> string list \<Rightarrow> int \<Rightarrow> number" where
  "getRankSortValue rankObj validRanks maxTier =
    (case rankObj of
       None \<Rightarrow> Num 999999
     | Some r \<Rightarrow>
        (case find (\<lambda>i. toLowerCase (validRanks ! i) = toLowerCase (rank r))
                   [0 ..< length validRanks] of
           None \<Rightarrow> Num 999999
         | Some rankIndex \<Rightarrow>
            (case tier r of
               NaN \<Rightarrow> NaN
             | Num t \<Rightarrow> Num (int rankIndex * maxTier + (maxTier - t + 1)))))"

text \<open>
  The JavaScript \<open>Date\<close> object is not part of the repository: the functions that use it
  take its two operations as a parameter. \<open>getTime D s\<close> is the time value of
  \<open>new Date(s)\<close> in milliseconds (\<open>NaN\<close> for an invalid date), \<open>toISOString D t\<close> the
  text of a valid time value.
\<close>

record dateApi =
  getTime :: "string \<Rightarrow> number"
  toISOString :: "int \<Rightarrow> string"

definition parseDate :: "dateApi \<Rightarrow> string \<Rightarrow> string option" where
  "parseDate D dateString =
    (case getTime D dateString of NaN \<Rightarrow> None | Num t \<Rightarrow> Some (toISOString D t))"

text \<open>
  One record type holds the player objects of all three games: a field that an object
  does not have is \<open>None\<close>. \<open>game\<close> and \<open>rawMention\<close> are set by the parser only.
\<close>

record player =
  game :: "string option"
  userId :: string
  role :: "string option"
  heroName :: "string option"
  currentRank :: "rankObj option"
  currentValue :: number
  peakRank :: "rankObj option"
  peakValue :: "number option"
  lastUpdated :: string
  rawMention :: "string option"

function scanRank :: "string list \<Rightarrow> nat \<Rightarrow> string list \<Rightarrow> nat \<times> string list" where
  \<comment> \<open>\<open>while (end < parts.length && isNaN(parseInt(parts[end], 10))) { acc.push(parts[end]); end++ }\<close>\<close>
  "scanRank parts end' acc =
    (if end' < length parts \<and> isNaN (parseInt (parts ! end'))
     then scanRank parts (Suc end') (acc @ [parts ! end'])
     else (end', acc))"
  by pat_completeness auto
termination
  by (relation "measure (\<lambda>(parts, end', acc). length parts - end')") auto

declare scanRank.simps [simp del]

definition joinText :: "string option \<Rightarrow> string" where
  \<comment> \<open>the text \<open>join\<close> gives an array element: empty for \<open>undefined\<close>\<close>
  "joinText x = (case x of None \<Rightarrow> [] | Some s \<Rightarrow> s)"

text \<open>
  A parser returns \<open>null\<close> on every failure, after a warning on the console except where the
  command tag is missing. \<open>Inl w\<close> stands for \<open>null\<close> with the warning \<open>w\<close> (empty when
  nothing is logged), \<open>Inr u\<close> for the object returned.
\<close>

definition parseMarvelRivals :: "dateApi \<Rightarrow> string \<Rightarrow> string + player" where
  "parseMarvelRivals D messageContent =
    (if \<not> startsWith (trim messageContent) ''LB_UPDATE_MR:'' then Inl []
     else
      (let content = trim (drop (length ''LB_UPDATE_MR:'') (trim messageContent));
           parts = splitWs content
       in if length parts < 7 then Inl ''Invalid MR format: insufficient fields''
          else
           (let mention = parts ! 0
            in case extractUserId mention of
                 None \<Rightarrow> Inl ''Invalid MR format: invalid mention''
               | Some uid \<Rightarrow>
                  (let role' = sanitize (parts ! 1);
                       (currentRankEnd, currentRankParts) = scanRank parts 2 [parts ! 2]
                   in if currentRankEnd \<ge> length parts
                      then Inl ''Invalid MR format: missing current value''
                      else
                       (case parseRankWithTier (joinWith '' '' currentRankParts)
                               MARVEL_RIVALS_RANKS 3 of
                          None \<Rightarrow> Inl ''Invalid MR format: invalid current rank''
                        | Some currentRank' \<Rightarrow>
                           (case parseInt (parts ! currentRankEnd) of
                              NaN \<Rightarrow> Inl ''Invalid MR format: invalid current value''
                            | Num currentValue' \<Rightarrow>
                               if currentValue' < 0
                               then Inl ''Invalid MR format: invalid current value''
                               else
                                (let peakRankStart = currentRankEnd + 1;
                                     (peakRankEnd, peakRankParts) =
                                        scanRank parts (peakRankStart + 1)
                                          [joinText (nth_opt parts peakRankStart)]
                                 in if peakRankEnd \<ge> length parts
                                    then Inl ''Invalid MR format: missing peak value''
                                    else
                                     (case parseRankWithTier (joinWith '' '' peakRankParts)
                                             MARVEL_RIVALS_RANKS 3 of
                                        None \<Rightarrow> Inl ''Invalid MR format: invalid peak rank''
                                      | Some peakRank' \<Rightarrow>
                                         (case parseInt (parts ! peakRankEnd) of
                                            NaN \<Rightarrow> Inl ''Invalid MR format: invalid peak value''
                                          | Num peakValue' \<Rightarrow>
                                             if peakValue' < 0
                                             then Inl ''Invalid MR format: invalid peak value''
                                             else
                                              (case parseDate D
                                                      (joinWith '' '' (drop (peakRankEnd + 1) parts)) of
                                                 None \<Rightarrow> Inl ''Invalid MR format: invalid date''
                                               | Some parsedDate \<Rightarrow>
                                                  if parsedDate = []
                                                  then Inl ''Invalid MR format: invalid date''
                                                  else Inr \<lparr> game = Some ''MARVEL_RIVALS'',
                                                             userId = uid,
                                                             role = Some role',
                                                             heroName = None,
                                                             currentRank = Some currentRank',
                                                             currentValue = Num currentValue',
                                                             peakRank = Some peakRank',
                                                             peakValue = Some (Num peakValue'),
                                                             lastUpdated = parsedDate,
                                                             rawMention = Some mention \<rparr>))))))))))"

definition parseOverwatch :: "dateApi \<Rightarrow> string \<Rightarrow> string + player" where
  "parseOverwatch D messageContent =
    (if \<not> startsWith (trim messageContent) ''LB_UPDATE_OW:'' then Inl []
     else
      (let content = trim (drop (length ''LB_UPDATE_OW:'') (trim messageContent));
           parts = splitWs content
       in if length parts < 7 then Inl ''Invalid OW format: insufficient fields''
          else
           (let mention = parts ! 0
            in case extractUserId mention of
                 None \<Rightarrow> Inl ''Invalid OW format: invalid mention''
               | Some uid \<Rightarrow>
                  (let role' = sanitize (parts ! 1);
                       (currentRankEnd, currentRankParts) = scanRank parts 2 [parts ! 2]
                   in if currentRankEnd \<ge> length parts
                      then Inl ''Invalid OW format: missing current value''
                      else
                       (case parseRankWithTier (joinWith '' '' currentRankParts)
                               OVERWATCH_RANKS 5 of
                          None \<Rightarrow> Inl ''Invalid OW format: invalid current rank''
                        | Some currentRank' \<Rightarrow>
                           (case parseInt (parts ! currentRankEnd) of
                              NaN \<Rightarrow> Inl ''Invalid OW format: invalid current value''
                            | Num currentValue' \<Rightarrow>
                               if currentValue' < 0
                               then Inl ''Invalid OW format: invalid current value''
                               else
                                (let peakRankStart = currentRankEnd + 1;
                                     (peakRankEnd, peakRankParts) =
                                        scanRank parts (peakRankStart + 1)
                                          [joinText (nth_opt parts peakRankStart)]
                                 in if peakRankEnd \<ge> length parts
                                    then Inl ''Invalid OW format: missing peak value''
                                    else
                                     (case parseRankWithTier (joinWith '' '' peakRankParts)
                                             OVERWATCH_RANKS 5 of
                                        None \<Rightarrow> Inl ''Invalid OW format: invalid peak rank''
                                      | Some peakRank' \<Rightarrow>
                                         (case parseInt (parts ! peakRankEnd) of
                                            NaN \<Rightarrow> Inl ''Invalid OW format: invalid peak value''
                                          | Num peakValue' \<Rightarrow>
                                             if peakValue' < 0
                                             then Inl ''Invalid OW format: invalid peak value''
                                             else
                                              (case parseDate D
                                                      (joinWith '' '' (drop (peakRankEnd + 1) parts)) of
                                                 None \<Rightarrow> Inl ''Invalid OW format: invalid date''
                                               | Some parsedDate \<Rightarrow>
                                                  if parsedDate = []
                                                  then Inl ''Invalid OW format: invalid date''
                                                  else Inr \<lparr> game = Some ''OVERWATCH'',
                                                             userId = uid,
                                                             role = Some role',
                                                             heroName = None,
                                                             currentRank = Some currentRank',
                                                             currentValue = Num currentValue',
                                                             peakRank = Some peakRank',
                                                             peakValue = Some (Num peakValue'),
                                                             lastUpdated = parsedDate,
                                                             rawMention = Some mention \<rparr>))))))))))"

definition parseDeadlock :: "dateApi \<Rightarrow> string \<Rightarrow> string + player" where
  "parseDeadlock D messageContent =
    (if \<not> startsWith (trim messageContent) ''LB_UPDATE_DL:'' then Inl []
     else
      (let content = trim (drop (length ''LB_UPDATE_DL:'') (trim messageContent));
           parts = splitWs content
       in if length parts < 5 then Inl ''Invalid DL format: insufficient fields''
          else
           (let mention = parts ! 0
            in case extractUserId mention of
                 None \<Rightarrow> Inl ''Invalid DL format: invalid mention''
               | Some uid \<Rightarrow>
                  (let heroName' = sanitize (parts ! 1);
                       (currentRankEnd, currentRankParts) = scanRank parts 2 [parts ! 2]
                   in if currentRankEnd \<ge> length parts
                      then Inl ''Invalid DL format: missing current value''
                      else
                       (case parseRankWithTier (joinWith '' '' currentRankParts)
                               DEADLOCK_RANKS 6 of
                          None \<Rightarrow> Inl ''Invalid DL format: invalid current rank''
                        | Some currentRank' \<Rightarrow>
                           (case parseInt (parts ! currentRankEnd) of
                              NaN \<Rightarrow> Inl ''Invalid DL format: invalid current value''
                            | Num currentValue' \<Rightarrow>
                               if currentValue' < 0
                               then Inl ''Invalid DL format: invalid current value''
                               else
                                (case parseDate D
                                        (joinWith '' '' (drop (currentRankEnd + 1) parts)) of
                                   None \<Rightarrow> Inl ''Invalid DL format: invalid date''
                                 | Some parsedDate \<Rightarrow>
                                    if parsedDate = []
                                    then Inl ''Invalid DL format: invalid date''
                                    else Inr \<lparr> game = Some ''DEADLOCK'',
                                               userId = uid,
                                               role = None,
                                               heroName = Some heroName',
                                               currentRank = Some currentRank',
                                               currentValue = Num currentValue',
                                               peakRank = None,
                                               peakValue = None,
                                               lastUpdated = parsedDate,
                                               rawMention = Some mention \<rparr>)))))))"

fun includesStr :: "string \<Rightarrow> string \<Rightarrow> bool" where
  "includesStr [] p = (p = [])"
| "includesStr (c # cs) p = (startsWith (c # cs) p \<or> includesStr cs p)"

definition parseMessage :: "dateApi \<Rightarrow> string \<Rightarrow> string + player" where
  "parseMessage D messageContent =
    (if messageContent = [] then Inl []
     else if includesStr messageContent ''LB_UPDATE_MR:'' then parseMarvelRivals D messageContent
     else if includesStr messageContent ''LB_UPDATE_OW:'' then parseOverwatch D messageContent
     else if includesStr messageContent ''LB_UPDATE_DL:'' then parseDeadlock D messageContent
     else Inl [])"

record message =
  msgId :: string
  content :: string
  createdTimestamp :: int
  msgAuthor :: string

record successEntry =
  messageId :: string
  timestamp :: int
  author :: string
  data :: player

record failedEntry =
  failedMessageId :: string
  failedContent :: string
  reason :: string

record parseResults =
  successful :: "successEntry list"
  failed :: "failedEntry list"
  skipped :: nat

definition parseOne :: "dateApi \<Rightarrow> string option \<Rightarrow> parseResults \<Rightarrow> message \<Rightarrow> parseResults" where
  \<comment> \<open>the body of the loop of \<open>parseMultipleUpdates\<close>, with its three tests in the source's order\<close>
  "parseOne D gameType results m =
    (let parsed = parseMessage D (content m)
     in if isl parsed then results\<lparr>skipped := skipped results + 1\<rparr>
        else if gameType \<noteq> None \<and> gameType \<noteq> Some [] \<and> game (projr parsed) \<noteq> gameType
        then results\<lparr>skipped := skipped results + 1\<rparr>
        else if \<not> isl parsed
        then results\<lparr>successful := successful results @
               [\<lparr> messageId = msgId m, timestamp = createdTimestamp m,
                  author = msgAuthor m, data = projr parsed \<rparr>]\<rparr>
        else results\<lparr>failed := failed results @
               [\<lparr> failedMessageId = msgId m, failedContent = content m,
                  reason = ''parse_error'' \<rparr>]\<rparr>)"

definition parseMultipleUpdates :: "dateApi \<Rightarrow> message list \<Rightarrow> string option \<Rightarrow> parseResults" where
  "parseMultipleUpdates D messages gameType =
    foldl (parseOne D gameType) \<lparr> successful = [], failed = [], skipped = 0 \<rparr> messages"

subsection \<open>sortPlayers\<close>

definition strictNeq :: "number \<Rightarrow> number \<Rightarrow> bool" where
  \<comment> \<open>\<open>a !== b\<close> on numbers: \<open>NaN\<close> differs from everything, itself included\<close>
  "strictNeq a b = (case (a, b) of (Num x, Num y) \<Rightarrow> x \<noteq> y | _ \<Rightarrow> True)"

definition strictNeqOpt :: "number option \<Rightarrow> number option \<Rightarrow> bool" where
  \<comment> \<open>\<open>a !== b\<close> where a value may be \<open>undefined\<close>\<close>
  "strictNeqOpt a b =
    (case (a, b) of (None, None) \<Rightarrow> False | (Some x, Some y) \<Rightarrow> strictNeq x y | _ \<Rightarrow> True)"

definition numSub :: "number \<Rightarrow> number \<Rightarrow> number" where
  "numSub a b = (case (a, b) of (Num x, Num y) \<Rightarrow> Num (x - y) | _ \<Rightarrow> NaN)"

definition toNumber :: "number option \<Rightarrow> number" where
  \<comment> \<open>\<open>undefined\<close> is \<open>NaN\<close> in arithmetic\<close>
  "toNumber a = (case a of None \<Rightarrow> NaN | Some x \<Rightarrow> x)"

definition numLess :: "number \<Rightarrow> number \<Rightarrow> bool" where
  \<comment> \<open>\<open>a < b\<close>: false when either side is \<open>NaN\<close>\<close>
  "numLess a b = (case (a, b) of (Num x, Num y) \<Rightarrow> x < y | _ \<Rightarrow> False)"

definition compareTwoRank :: "dateApi \<Rightarrow> string list \<Rightarrow> int \<Rightarrow> player \<Rightarrow> player \<Rightarrow> number" where
  \<comment> \<open>the comparator of \<open>sortPlayers\<close> for \<open>MARVEL_RIVALS\<close> and \<open>OVERWATCH\<close>\<close>
  "compareTwoRank D validRanks maxTier a b =
    (let aRankValue = getRankSortValue (currentRank a) validRanks maxTier;
         bRankValue = getRankSortValue (currentRank b) validRanks maxTier
     in if strictNeq aRankValue bRankValue then numSub bRankValue aRankValue
        else if strictNeq (currentValue a) (currentValue b)
        then numSub (currentValue a) (currentValue b)
        else
         (let aPeakValue = getRankSortValue (peakRank a) validRanks maxTier;
              bPeakValue = getRankSortValue (peakRank b) validRanks maxTier
          in if strictNeq aPeakValue bPeakValue then numSub bPeakValue aPeakValue
             else if strictNeqOpt (peakValue a) (peakValue b)
             then numSub (toNumber (peakValue a)) (toNumber (peakValue b))
             else numSub (getTime D (lastUpdated b)) (getTime D (lastUpdated a))))"

definition compareDeadlock :: "dateApi \<Rightarrow> player \<Rightarrow> player \<Rightarrow> number" where
  "compareDeadlock D a b =
    (let aRankValue = getRankSortValue (currentRank a) DEADLOCK_RANKS 6;
         bRankValue = getRankSortValue (currentRank b) DEADLOCK_RANKS 6
     in if strictNeq aRankValue bRankValue then numSub bRankValue aRankValue
        else if strictNeq (currentValue a) (currentValue b)
        then numSub (currentValue a) (currentValue b)
        else numSub (getTime D (lastUpdated b)) (getTime D (lastUpdated a)))"

definition comparePlayers :: "dateApi \<Rightarrow> string \<Rightarrow> player \<Rightarrow> player \<Rightarrow> number" where
  "comparePlayers D gameType a b =
    (if gameType = ''MARVEL_RIVALS'' \<or> gameType = ''OVERWATCH''
     then compareTwoRank D
            (if gameType = ''MARVEL_RIVALS'' then MARVEL_RIVALS_RANKS else OVERWATCH_RANKS)
            (if gameType = ''MARVEL_RIVALS'' then 3 else 5) a b
     else if gameType = ''DEADLOCK'' then compareDeadlock D a b
     else Num 0)"

text \<open>
  \<open>Array.prototype.sort\<close> is stable, and a comparator result of \<open>NaN\<close> counts as 0. For a
  comparator that is a consistent ordering the sorted array is therefore determined: it
  is the one a stable insertion sort produces, which is the model of \<open>sort\<close> here. (For an
  inconsistent comparator the language leaves the order to the implementation.)
\<close>

definition notAfter :: "('a \<Rightarrow> 'a \<Rightarrow> number) \<Rightarrow> 'a \<Rightarrow> 'a \<Rightarrow> bool" where
  "notAfter cmp x y = (case cmp x y of NaN \<Rightarrow> True | Num v \<Rightarrow> v \<le> 0)"

fun insertBy :: "('a \<Rightarrow> 'a \<Rightarrow> number) \<Rightarrow> 'a \<Rightarrow> 'a list \<Rightarrow> 'a list" where
  "insertBy cmp x [] = [x]"
| "insertBy cmp x (y # ys) =
    (if notAfter cmp x y then x # y # ys else y # insertBy cmp x ys)"

definition sortBy :: "('a \<Rightarrow> 'a \<Rightarrow> number) \<Rightarrow> 'a list \<Rightarrow> 'a list" where
  "sortBy cmp xs = foldr (insertBy cmp) xs []"

definition sortPlayers :: "dateApi \<Rightarrow> player list \<Rightarrow> string \<Rightarrow> player list" where
  "sortPlayers D players gameType =
    (if players = [] then [] else sortBy (comparePlayers D gameType) players)"

section \<open>storage.js\<close>

definition DATA_START_MARKER :: string where
  "DATA_START_MARKER = ''[DATA:v1]''"

definition DATA_END_MARKER :: string where
  "DATA_END_MARKER = ''[/DATA]''"

datatype error = TypeError

datatype 'a js = Null | Undefined | Obj 'a

definition orUnknown :: "string option \<Rightarrow> string" where
  \<comment> \<open>\<open>x || 'Unknown'\<close>\<close>
  "orUnknown x = (case x of None \<Rightarrow> ''Unknown'' | Some s \<Rightarrow> if s = [] then ''Unknown'' else s)"

definition rankText :: "rankObj \<Rightarrow> string" where
  \<comment> \<open>the template literal \<open>`${r.rank} ${r.tier}`\<close>\<close>
  "rankText r = rank r @ '' '' @ showNumber (tier r)"

definition encodePlayer :: "string \<Rightarrow> player \<Rightarrow> error + string" where
  \<comment> \<open>the callback of \<open>map\<close> in \<open>encodePlayerData\<close>, followed by the text \<open>join\<close> gives its
      result: reading \<open>.rank\<close> of an absent rank throws, and for any other game type the
      callback returns \<open>undefined\<close>, which \<open>join\<close> renders as the empty text\<close>
  "encodePlayer gameType p =
    (if gameType = ''MARVEL_RIVALS'' \<or> gameType = ''OVERWATCH''
     then (case (currentRank p, peakRank p) of
             (Some cr, Some pr) \<Rightarrow>
               Inr (joinWith ''|''
                     [userId p, orUnknown (role p), rankText cr, showNumber (currentValue p),
                      rankText pr,
                      (case peakValue p of None \<Rightarrow> [] | Some v \<Rightarrow> showNumber v),
                      lastUpdated p])
           | _ \<Rightarrow> Inl TypeError)
     else if gameType = ''DEADLOCK''
     then (case currentRank p of
             Some cr \<Rightarrow>
               Inr (joinWith ''|''
                     [userId p, orUnknown (heroName p), rankText cr,
                      showNumber (currentValue p), lastUpdated p])
           | None \<Rightarrow> Inl TypeError)
     else Inr [])"

fun mapResult :: "('a \<Rightarrow> error + 'b) \<Rightarrow> 'a list \<Rightarrow> error + 'b list" where
  "mapResult f [] = Inr []"
| "mapResult f (x # xs) =
    (case f x of
       Inl e \<Rightarrow> Inl e
     | Inr y \<Rightarrow> (case mapResult f xs of Inl e \<Rightarrow> Inl e | Inr ys \<Rightarrow> Inr (y # ys)))"

definition encodePlayerData :: "player list \<Rightarrow> string \<Rightarrow> error + string" where
  "encodePlayerData players gameType =
    (case mapResult (encodePlayer gameType) players of
       Inl e \<Rightarrow> Inl e
     | Inr ls \<Rightarrow> Inr (joinWith [CHR 0x0A] ls))"

definition decodeLine :: "string option \<Rightarrow> string \<Rightarrow> player js" where
  \<comment> \<open>the callback of \<open>map\<close> in \<open>decodePlayerData\<close>\<close>
  "decodeLine gameType line =
    (let parts = splitOn CHR ''|'' line
     in if gameType = Some ''MARVEL_RIVALS'' \<or> gameType = Some ''OVERWATCH''
        then if length parts < 7 then Null
             else
              (let cur = splitOn CHR '' '' (parts ! 2);
                   peak = splitOn CHR '' '' (parts ! 4)
               in Obj \<lparr> game = None,
                        userId = parts ! 0,
                        role = Some (parts ! 1),
                        heroName = None,
                        currentRank = Some \<lparr> rank = cur ! 0, tier = parseIntOpt (nth_opt cur 1) \<rparr>,
                        currentValue = parseInt (parts ! 3),
                        peakRank = Some \<lparr> rank = peak ! 0, tier = parseIntOpt (nth_opt peak 1) \<rparr>,
                        peakValue = Some (parseInt (parts ! 5)),
                        lastUpdated = parts ! 6,
                        rawMention = None \<rparr>)
        else if gameType = Some ''DEADLOCK''
        then if length parts < 5 then Null
             else
              (let cur = splitOn CHR '' '' (parts ! 2)
               in Obj \<lparr> game = None,
                        userId = parts ! 0,
                        role = None,
                        heroName = Some (parts ! 1),
                        currentRank = Some \<lparr> rank = cur ! 0, tier = parseIntOpt (nth_opt cur 1) \<rparr>,
                        currentValue = parseInt (parts ! 3),
                        peakRank = None,
                        peakValue = None,
                        lastUpdated = parts ! 4,
                        rawMention = None \<rparr>)
        else Undefined)"

definition decodePlayerData :: "string \<Rightarrow> string option \<Rightarrow> player js list" where
  "decodePlayerData dataString gameType =
    (if dataString = [] \<or> trim dataString = [] then []
     else filter (\<lambda>player. player \<noteq> Null)
            (map (decodeLine gameType)
               (filter (\<lambda>line. trim line \<noteq> []) (splitOn CHR 0x0A (trim dataString)))))"

definition orNone :: "string option \<Rightarrow> string" where
  \<comment> \<open>\<open>x || 'none'\<close>\<close>
  "orNone x = (case x of None \<Rightarrow> ''none'' | Some s \<Rightarrow> if s = [] then ''none'' else s)"

definition encodeState :: "string option \<Rightarrow> player list \<Rightarrow> string \<Rightarrow> error + string" where
  "encodeState lastProcessedMessageId players gameType =
    (case encodePlayerData players gameType of
       Inl e \<Rightarrow> Inl e
     | Inr body \<Rightarrow>
        Inr (joinWith [CHR 0x0A]
              [DATA_START_MARKER,
               ''GAME:'' @ gameType,
               ''LAST:'' @ orNone lastProcessedMessageId,
               body,
               DATA_END_MARKER]))"

fun indexOf :: "string \<Rightarrow> string \<Rightarrow> nat option" where
  \<comment> \<open>\<open>s.indexOf(p)\<close>: \<open>None\<close> for -1\<close>
  "indexOf [] p = (if p = [] then Some 0 else None)"
| "indexOf (c # cs) p =
    (if startsWith (c # cs) p then Some 0
     else (case indexOf cs p of None \<Rightarrow> None | Some i \<Rightarrow> Some (Suc i)))"

definition substring :: "string \<Rightarrow> nat \<Rightarrow> nat \<Rightarrow> string" where
  \<comment> \<open>\<open>s.substring(a, b)\<close>: the two indices are swapped when \<open>a > b\<close>\<close>
  "substring s a b = take (max a b - min a b) (drop (min a b) s)"

definition matchTag :: "string \<Rightarrow> string \<Rightarrow> string option" where
  \<comment> \<open>\<open>line.match(/^TAG(.+)$/)\<close>: the tag, then at least one character up to the end of
      the text, none of them a line terminator; the captured group on a match\<close>
  "matchTag tag line =
    (let rest = drop (length tag) line
     in if startsWith line tag \<and> rest \<noteq> []
           \<and> list_all (\<lambda>c. c \<noteq> CHR 0x0A \<and> c \<noteq> CHR 0x0D) rest
        then Some rest else None)"

record state =
  gameType :: "string option"
  lastProcessedMessageId :: "string option"
  players :: "player js list"

definition decodeState :: "string \<Rightarrow> state" where
  "decodeState messageContent =
    (if messageContent = []
     then \<lparr> gameType = None, lastProcessedMessageId = None, players = [] \<rparr>
     else
      (case (indexOf messageContent DATA_START_MARKER, indexOf messageContent DATA_END_MARKER) of
         (Some startIdx, Some endIdx) \<Rightarrow>
           (let dataSection =
                  trim (substring messageContent (startIdx + length DATA_START_MARKER) endIdx);
                lines = splitOn CHR 0x0A dataSection;
                gameMatch = matchTag ''GAME:'' (lines ! 0);
                lastMatch = (case nth_opt lines 1 of
                               None \<Rightarrow> None | Some l \<Rightarrow> matchTag ''LAST:'' l);
                playerDataString = joinWith [CHR 0x0A] (drop 2 lines)
            in \<lparr> gameType = gameMatch,
                 lastProcessedMessageId =
                   (case lastMatch of
                      None \<Rightarrow> None
                    | Some l \<Rightarrow> if l \<noteq> ''none'' then Some l else None),
                 players = decodePlayerData playerDataString gameMatch \<rparr>)
       | _ \<Rightarrow> \<lparr> gameType = None, lastProcessedMessageId = None, players = [] \<rparr>))"

definition findIndex :: "('a \<Rightarrow> bool) \<Rightarrow> 'a list \<Rightarrow> nat option" where
  \<comment> \<open>\<open>xs.findIndex(p)\<close>: \<open>None\<close> for -1\<close>
  "findIndex P xs = find (\<lambda>i. P (xs ! i)) [0 ..< length xs]"

text \<open>
  \<open>upsertPlayer\<close> changes the array it is given and returns it; the model returns the new
  list. The array holds player objects only (the callback of \<open>findIndex\<close> would throw on
  an \<open>undefined\<close> element).
\<close>

definition upsertPlayer :: "dateApi \<Rightarrow> player list \<Rightarrow> player \<Rightarrow> player list \<times> bool" where
  "upsertPlayer D players' newPlayerData =
    (case findIndex (\<lambda>p. userId p = userId newPlayerData) players' of
       Some existingIndex \<Rightarrow>
         (let existingDate = getTime D (lastUpdated (players' ! existingIndex));
              newDate = getTime D (lastUpdated newPlayerData)
          in if numLess newDate existingDate then (players', False)
             else (players'[existingIndex := newPlayerData], True))
     | None \<Rightarrow> (players' @ [newPlayerData], True))"

section \<open>sync.js: the merge loop of syncGame\<close>





section \<open>Notions and examples used in the statements\<close>

text \<open>A small table standing for \<open>Date\<close> in the examples.\<close>

definition exampleDates :: dateApi where
  "exampleDates =
    \<lparr> getTime = (\<lambda>s. if s = ''2026-02-14'' \<or> s = ''2026-02-14T00:00:00.000Z'' then Num 1771027200000
                      else if s = ''2026-02-13T23:59:59.000Z'' then Num 1771027199000
                      else if s = ''2026-02-14T00:00:01.000Z'' then Num 1771027201000
                      else NaN),
      toISOString = (\<lambda>t. if t = 1771027200000 then ''2026-02-14T00:00:00.000Z''
                          else if t = 1771027199000 then ''2026-02-13T23:59:59.000Z''
                          else ''2026-02-14T00:00:01.000Z'') \<rparr>"

text \<open>A stored player object of a two-rank game.\<close>

definition twoRankPlayer ::
  "string \<Rightarrow> string \<Rightarrow> string \<Rightarrow> int \<Rightarrow> int \<Rightarrow> string \<Rightarrow> int \<Rightarrow> int \<Rightarrow> string \<Rightarrow> player" where
  "twoRankPlayer uid label curName curTier curVal peakName peakTier peakVal date =
    \<lparr> game = None, userId = uid, role = Some label, heroName = None,
      currentRank = Some \<lparr> rank = curName, tier = Num curTier \<rparr>, currentValue = Num curVal,
      peakRank = Some \<lparr> rank = peakName, tier = Num peakTier \<rparr>, peakValue = Some (Num peakVal),
      lastUpdated = date, rawMention = None \<rparr>"

text \<open>
  A message is accepted by \<open>parseMultipleUpdates\<close> when \<open>parseMessage\<close> returns an object and
  the game-type filter, if one is given, lets it through; \<open>toEntry\<close> is the entry pushed for
  it.
\<close>

definition accepted :: "dateApi \<Rightarrow> string option \<Rightarrow> message \<Rightarrow> bool" where
  "accepted D gt m =
    (case parseMessage D (content m) of
       Inl w \<Rightarrow> False
     | Inr u \<Rightarrow> \<not> (gt \<noteq> None \<and> gt \<noteq> Some [] \<and> game u \<noteq> gt))"

definition toEntry :: "dateApi \<Rightarrow> message \<Rightarrow> successEntry" where
  "toEntry D m =
    \<lparr> messageId = msgId m, timestamp = createdTimestamp m, author = msgAuthor m,
      data = projr (parseMessage D (content m)) \<rparr>"

definition examplePlayerX :: player where
  "examplePlayerX = twoRankPlayer ''1'' ''Duelist'' ''Diamond'' 2 2450 ''Grandmaster'' 1 2610
                      ''2026-02-14T00:00:00.000Z''"
definition examplePlayerY :: player where
  "examplePlayerY = twoRankPlayer ''2'' ''Vanguard'' ''Platinum'' 1 2100 ''Diamond'' 3 2300
                      ''2026-02-14T00:00:00.000Z''"
definition examplePlayerZ :: player where
  "examplePlayerZ = twoRankPlayer ''3'' ''Strategist'' ''Diamond'' 2 2300 ''Grandmaster'' 1 2610
                      ''2026-02-14T00:00:00.000Z''"
definition exampleStale :: player where
  "exampleStale = twoRankPlayer ''1'' ''Duelist'' ''Gold'' 1 1500 ''Grandmaster'' 1 2610
                      ''2026-02-13T23:59:59.000Z''"
definition exampleEqual :: player where
  "exampleEqual = twoRankPlayer ''1'' ''Duelist'' ''Celestial'' 3 2900 ''Celestial'' 3 2900
                      ''2026-02-14T00:00:00.000Z''"
definition exampleLater :: player where
  "exampleLater = twoRankPlayer ''1'' ''Duelist'' ''Celestial'' 3 2900 ''Celestial'' 3 2900
                      ''2026-02-14T00:00:01.000Z''"
definition entryLater :: successEntry where
  "entryLater = \<lparr> messageId = ''9001'', timestamp = 1, author = ''a'', data = exampleLater \<rparr>"
definition entryStale :: successEntry where
  "entryStale = \<lparr> messageId = ''9002'', timestamp = 2, author = ''a'', data = exampleStale \<rparr>"


definition exampleUnranked :: player where
  "exampleUnranked = twoRankPlayer ''4'' ''Duelist'' ''Unranked'' 1 100 ''Unranked'' 1 100
                      ''2026-02-14T00:00:00.000Z''"

definition exampleOneAbove :: player where
  "exampleOneAbove = twoRankPlayer ''5'' ''Duelist'' ''One Above All'' 1 5000 ''One Above All'' 1 5000
                      ''2026-02-14T00:00:00.000Z''"










definition stored :: "string \<Rightarrow> player \<Rightarrow> player" where
  "stored g p =
    (if g = ''DEADLOCK''
     then \<lparr> game = None, userId = userId p, role = None,
            heroName = Some (orUnknown (heroName p)),
            currentRank = currentRank p, currentValue = currentValue p,
            peakRank = None, peakValue = None,
            lastUpdated = lastUpdated p, rawMention = None \<rparr>
     else \<lparr> game = None, userId = userId p, role = Some (orUnknown (role p)),
            heroName = None,
            currentRank = currentRank p, currentValue = currentValue p,
            peakRank = peakRank p, peakValue = Some (toNumber (peakValue p)),
            lastUpdated = lastUpdated p, rawMention = None \<rparr>)"




text \<open>\<open>decodeState\<close> after \<open>encodeState\<close>, and the number of fields a player line of a game
  must have.\<close>

definition roundTrip :: "string option \<Rightarrow> player list \<Rightarrow> string \<Rightarrow> error + state" where
  "roundTrip c S g =
    (case encodeState c S g of Inl e \<Rightarrow> Inl e | Inr blob \<Rightarrow> Inr (decodeState blob))"




section \<open>Properties\<close>

subsection \<open>Auxiliary facts\<close>

lemmas ex_defs = examplePlayerX_def examplePlayerY_def examplePlayerZ_def exampleStale_def
  exampleEqual_def exampleLater_def entryLater_def entryStale_def twoRankPlayer_def exampleDates_def

lemma findIndex_Some_iff:
  "findIndex P xs = Some i \<longleftrightarrow> i < length xs \<and> P (xs ! i) \<and> (\<forall>j<i. \<not> P (xs ! j))"
  unfolding findIndex_def find_Some_iff
  by (auto simp: nth_upt) 

lemma findIndex_None_iff: "findIndex P xs = None \<longleftrightarrow> (\<forall>x\<in>set xs. \<not> P x)"
  unfolding findIndex_def find_None_iff
  by (auto simp: in_set_conv_nth) (metis nth_mem)

lemma parseOne_cases:
  "parseOne D gt r m =
    (if accepted D gt m then r\<lparr>successful := successful r @ [toEntry D m]\<rparr>
     else r\<lparr>skipped := skipped r + 1\<rparr>)"
  by (cases "parseMessage D (content m)") (auto simp: parseOne_def accepted_def toEntry_def Let_def)

lemma foldl_parseOne:
  "foldl (parseOne D gt) r ms =
    r\<lparr>successful := successful r @ map (toEntry D) (filter (accepted D gt) ms),
      skipped := skipped r + length (filter (\<lambda>m. \<not> accepted D gt m) ms)\<rparr>"
proof (induction ms arbitrary: r)
  case Nil
  show ?case by simp
next
  case (Cons m ms)
  show ?case unfolding foldl_Cons Cons.IH by (simp add: parseOne_cases)
qed

lemma parseMultipleUpdates_eq:
  "parseMultipleUpdates D ms gt =
    \<lparr> successful = map (toEntry D) (filter (accepted D gt) ms), failed = [],
      skipped = length (filter (\<lambda>m. \<not> accepted D gt m) ms) \<rparr>"
  by (simp add: parseMultipleUpdates_def foldl_parseOne)


lemma matchPrefix_none:
  "(\<And>j. 1 \<le> j \<Longrightarrow> j \<le> n \<Longrightarrow> find (rankMatches (joinWith '' '' (take j parts))) ranks = None)
    \<Longrightarrow> matchPrefix ranks parts n = None"
  by (induction n) (simp_all add: Let_def)

lemma matchPrefix_longest:
  assumes "1 \<le> i" and "i \<le> n"
    and "find (rankMatches (joinWith '' '' (take i parts))) ranks = Some r"
    and "\<And>j. i < j \<Longrightarrow> j \<le> n \<Longrightarrow> find (rankMatches (joinWith '' '' (take j parts))) ranks = None"
  shows "matchPrefix ranks parts n =
          Some (r, case nth_opt parts i of None \<Rightarrow> None
                   | Some p \<Rightarrow> if p = [] then None else Some (parseInt p))"
  using assms
proof (induction n)
  case 0
  then show ?case by simp
next
  case (Suc n)
  show ?case
  proof (cases "i = Suc n")
    case True
    with Suc.prems(3) show ?thesis by (simp add: Let_def)
  next
    case False
    with Suc.prems have le: "i \<le> n" by simp
    have none: "find (rankMatches (joinWith '' '' (take (Suc n) parts))) ranks = None"
      using Suc.prems(4) [of "Suc n"] le by simp
    have "matchPrefix ranks parts n =
          Some (r, case nth_opt parts i of None \<Rightarrow> None
                   | Some p \<Rightarrow> if p = [] then None else Some (parseInt p))"
      using Suc.IH [OF Suc.prems(1) le Suc.prems(3)] Suc.prems(4) by simp
    with none show ?thesis by (simp add: Let_def)
  qed
qed

lemma find_None_list_ex: "find P xs = None \<longleftrightarrow> \<not> list_ex P xs"
  by (auto simp: find_None_iff list_ex_iff)











subsection \<open>Splitting, joining, searching and trimming\<close>




lemma startsWith_Nil [simp]: "startsWith s []"
  by (simp add: startsWith_def)


lemma startsWith_Nil_left [simp]: "startsWith [] p \<longleftrightarrow> p = []"
  by (auto simp: startsWith_def)


lemma includesStr_Nil_right [simp]: "includesStr s []"
  by (cases s) simp_all




lemma startsWith_append_self [simp]: "startsWith (p @ r) p"
  by (simp add: startsWith_def)








subsection \<open>Printing and reading numbers\<close>














subsection \<open>One player line\<close>






subsection \<open>The player lines and the whole blob\<close>




















lemma stored_same:
  assumes "game p = None" and "rawMention p = None"
    and "if g = ''DEADLOCK''
         then role p = None \<and> peakRank p = None \<and> peakValue p = None
              \<and> heroName p \<noteq> None \<and> heroName p \<noteq> Some []
         else heroName p = None \<and> role p \<noteq> None \<and> role p \<noteq> Some [] \<and> peakValue p \<noteq> None"
  shows "stored g p = p"
  using assms
  by (cases p) (auto simp: stored_def orUnknown_def toNumber_def split: if_splits option.splits)

lemma roundTrip_multi_word_rank:
  "roundTrip None [exampleOneAbove] ''MARVEL_RIVALS''
     = Inr \<lparr> gameType = Some ''MARVEL_RIVALS'', lastProcessedMessageId = None,
             players = [Obj (exampleOneAbove
                          \<lparr>currentRank := Some \<lparr> rank = ''One'', tier = NaN \<rparr>,
                            peakRank := Some \<lparr> rank = ''One'', tier = NaN \<rparr>\<rparr>)] \<rparr>"
  by code_simp



subsection \<open>The properties of the specification\<close>

text \<open>
  C1. On the example message of the specification, which is also the example in the
  comment above \<open>parseMarvelRivals\<close>, the parser returns \<open>null\<close>: \<open>@Turbo\<close> is no mention of the form
  \<open><@id>\<close>. With a well-formed mention it returns \<open>null\<close> as well, for every \<open>Date\<close>: the
  scan for the current rank starts at the rank name itself, so the name is taken twice, the
  tier \<open>2\<close> is read as the current value and \<open>2450 Master\<close> as the peak rank. The same
  happens when the peak rank is one of the game's ranks.
\<close>

theorem parseMarvelRivals_documented_example_fails:
  "parseMarvelRivals D ''LB_UPDATE_MR: @Turbo Duelist Diamond 2 2450 Master 1 2610 2026-02-14''
     = Inl ''Invalid MR format: invalid mention''
   \<and> parseMarvelRivals D ''LB_UPDATE_MR: <@1234> Duelist Diamond 2 2450 Master 1 2610 2026-02-14''
     = Inl ''Invalid MR format: invalid peak rank''
   \<and> parseMarvelRivals D ''LB_UPDATE_MR: <@1234> Duelist Diamond 2 2450 Grandmaster 1 2610 2026-02-14''
     = Inl ''Invalid MR format: invalid peak rank''"
  by code_simp




text \<open>
  C3. Let the record that \<open>upsertPlayer\<close> finds for the incoming \<open>userId\<close> (the first one in
  the list, the only one when the list holds at most one record per user) have the valid
  time value \<open>T\<close>, and the incoming record the valid time value \<open>t\<close>. If \<open>t < T\<close> the list
  is returned unchanged with \<open>updated = false\<close>; if \<open>T \<le> t\<close>, a tie included, the record is
  replaced by the incoming one as a whole and \<open>updated = true\<close>.
\<close>

theorem upsertPlayer_stale_or_applied:
  assumes "i < length ps" and "userId (ps ! i) = userId inc"
    and "\<forall>j<i. userId (ps ! j) \<noteq> userId inc"
    and "getTime D (lastUpdated (ps ! i)) = Num T"
    and "getTime D (lastUpdated inc) = Num t"
  shows "(t < T \<longrightarrow> upsertPlayer D ps inc = (ps, False))
       \<and> (T \<le> t \<longrightarrow> upsertPlayer D ps inc = (ps[i := inc], True))"
proof -
  have "findIndex (\<lambda>p. userId p = userId inc) ps = Some i"
    using assms(1-3) by (simp add: findIndex_Some_iff)
  then show ?thesis
    using assms(4,5) by (simp add: upsertPlayer_def Let_def numLess_def)
qed

theorem upsertPlayer_stale_or_applied_witness:
  "upsertPlayer exampleDates [examplePlayerY, examplePlayerX] exampleStale
     = ([examplePlayerY, examplePlayerX], False)
   \<and> upsertPlayer exampleDates [examplePlayerY, examplePlayerX] exampleEqual
     = ([examplePlayerY, exampleEqual], True)
   \<and> upsertPlayer exampleDates [examplePlayerY, examplePlayerX] exampleLater
     = ([examplePlayerY, exampleLater], True)"
  using upsertPlayer_stale_or_applied [of 1 "[examplePlayerY, examplePlayerX]" exampleStale
          exampleDates 1771027200000 1771027199000]
    upsertPlayer_stale_or_applied [of 1 "[examplePlayerY, examplePlayerX]" exampleEqual
          exampleDates 1771027200000 1771027200000]
    upsertPlayer_stale_or_applied [of 1 "[examplePlayerY, examplePlayerX]" exampleLater
          exampleDates 1771027200000 1771027201000]
  by (simp add: ex_defs)

text \<open>
  C4. The sort key of an absent rank and of a rank whose name is not in the list is 999999,
  larger than the key of every listed rank, and \<open>sortPlayers\<close> puts the larger key first: the
  player with the unknown or absent rank is placed before the players with a recognized
  rank, not after them.
\<close>

theorem sortPlayers_unknown_rank_first:
  "getRankSortValue None MARVEL_RIVALS_RANKS 3 = Num 999999
   \<and> getRankSortValue (currentRank exampleUnranked) MARVEL_RIVALS_RANKS 3 = Num 999999
   \<and> getRankSortValue (currentRank examplePlayerX) MARVEL_RIVALS_RANKS 3 = Num 14
   \<and> sortPlayers D [examplePlayerX, exampleUnranked, examplePlayerY] ''MARVEL_RIVALS''
       = [exampleUnranked, examplePlayerX, examplePlayerY]
   \<and> sortPlayers D [examplePlayerX, examplePlayerY\<lparr>currentRank := None\<rparr>] ''MARVEL_RIVALS''
       = [examplePlayerY\<lparr>currentRank := None\<rparr>, examplePlayerX]"
  by code_simp






text \<open>
  C7. The \<open>failed\<close> partition of \<open>parseMultipleUpdates\<close> is empty for every input: a message
  that carries a command tag and fails to parse is counted in \<open>skipped\<close>, as the message
  below is, and never reaches the branch that would record it with its reason.
\<close>

theorem parseMultipleUpdates_failed_always_empty:
  "failed (parseMultipleUpdates D messages gt) = []
   \<and> (let m = \<lparr> msgId = ''1001'', content = ''LB_UPDATE_MR: <@42> Duelist Diamond'',
                 createdTimestamp = 0, msgAuthor = ''u'' \<rparr>
      in includesStr (content m) ''LB_UPDATE_MR:''
         \<and> parseMessage D (content m) = Inl ''Invalid MR format: insufficient fields''
         \<and> failed (parseMultipleUpdates D [m] None) = []
         \<and> skipped (parseMultipleUpdates D [m] None) = 1)"
proof -
  have a: "failed (parseMultipleUpdates D messages gt) = []" for messages gt
    by (simp add: parseMultipleUpdates_eq)
  have b: "parseMessage D ''LB_UPDATE_MR: <@42> Duelist Diamond'' = Inl ''Invalid MR format: insufficient fields''"
    by code_simp
  have c: "includesStr ''LB_UPDATE_MR: <@42> Duelist Diamond'' ''LB_UPDATE_MR:''"
    by code_simp
  show ?thesis
    by (simp add: a b c Let_def parseMultipleUpdates_eq accepted_def del: includesStr.simps)
qed

text \<open>
  C8, as stated, fails: the token after the matched rank name is numeric, yet it does not
  become the tier when it lies outside 1 to \<open>maxTier\<close>.
\<close>

theorem parseRankWithTier_counterexample:
  "parseInt ''7'' = Num 7
   \<and> parseRankWithTier ''Diamond 7'' MARVEL_RIVALS_RANKS 3 = Some \<lparr> rank = ''Diamond'', tier = Num 1 \<rparr>"
  by code_simp

text \<open>
  C8, amended. \<open>parseRankWithTier\<close> splits the trimmed text into tokens and takes the longest
  token prefix that equals, without regard to case, a rank name of the list; the result
  carries the name as the list spells it. The tier is the integer that \<open>parseInt\<close> reads from
  the token after the prefix when that integer lies between 1 and \<open>maxTier\<close>, and 1
  otherwise (no such token, no integer, or out of range). When no prefix of any length
  matches, the result is \<open>null\<close>. The three examples of the specification hold.
\<close>

theorem parseRankWithTier_longest_prefix:
  "(let parts = splitWs (trim rankString);
        candidate = (\<lambda>i. joinWith '' '' (take i parts))
    in ((\<forall>i. 1 \<le> i \<and> i \<le> length parts \<longrightarrow> \<not> list_ex (rankMatches (candidate i)) validRanks)
          \<longrightarrow> parseRankWithTier rankString validRanks maxTier = None)
       \<and> (\<forall>i r. 1 \<le> i \<and> i \<le> length parts
                \<and> find (rankMatches (candidate i)) validRanks = Some r \<and> r \<noteq> []
                \<and> (\<forall>j. i < j \<and> j \<le> length parts
                         \<longrightarrow> \<not> list_ex (rankMatches (candidate j)) validRanks)
            \<longrightarrow> parseRankWithTier rankString validRanks maxTier =
                  Some \<lparr> rank = r,
                         tier = (case nth_opt parts i of
                                   None \<Rightarrow> Num 1
                                 | Some p \<Rightarrow>
                                    (case parseInt p of
                                       NaN \<Rightarrow> Num 1
                                     | Num t \<Rightarrow> if 1 \<le> t \<and> t \<le> maxTier then Num t else Num 1)) \<rparr>))
   \<and> parseRankWithTier ''One Above All 1'' MARVEL_RIVALS_RANKS 3
       = Some \<lparr> rank = ''One Above All'', tier = Num 1 \<rparr>
   \<and> parseRankWithTier ''Diamond 2'' MARVEL_RIVALS_RANKS 3
       = Some \<lparr> rank = ''Diamond'', tier = Num 2 \<rparr>
   \<and> parseRankWithTier ''Nonsense 1'' MARVEL_RIVALS_RANKS 3 = None"
proof -
  define parts where "parts = splitWs (trim rankString)"
  have a: "parseRankWithTier rankString validRanks maxTier = None"
    if "\<forall>i. 1 \<le> i \<and> i \<le> length parts
          \<longrightarrow> \<not> list_ex (rankMatches (joinWith '' '' (take i parts))) validRanks"
  proof -
    have "matchPrefix validRanks parts (length parts) = None"
      by (rule matchPrefix_none) (use that in \<open>simp add: find_None_list_ex\<close>)
    then show ?thesis by (simp add: parseRankWithTier_def parts_def)
  qed
  have b: "parseRankWithTier rankString validRanks maxTier =
            Some \<lparr> rank = r,
                   tier = (case nth_opt parts i of
                             None \<Rightarrow> Num 1
                           | Some p \<Rightarrow>
                              (case parseInt p of
                                 NaN \<Rightarrow> Num 1
                               | Num t \<Rightarrow> if 1 \<le> t \<and> t \<le> maxTier then Num t else Num 1)) \<rparr>"
    if "1 \<le> i" "i \<le> length parts"
      "find (rankMatches (joinWith '' '' (take i parts))) validRanks = Some r" "r \<noteq> []"
      "\<forall>j. i < j \<and> j \<le> length parts
          \<longrightarrow> \<not> list_ex (rankMatches (joinWith '' '' (take j parts))) validRanks" for i r
  proof -
    have "matchPrefix validRanks parts (length parts) =
          Some (r, case nth_opt parts i of None \<Rightarrow> None
                   | Some p \<Rightarrow> if p = [] then None else Some (parseInt p))"
      by (rule matchPrefix_longest [OF that(1,2,3)]) (use that(5) in \<open>simp add: find_None_list_ex\<close>)
    moreover have "parseInt [] = NaN"
      by (simp add: parseInt_def)
    ultimately show ?thesis
      using that(4)
      by (auto simp: parseRankWithTier_def parts_def [symmetric] Let_def
          split: option.splits number.splits)
  qed
  have c: "parseRankWithTier ''One Above All 1'' MARVEL_RIVALS_RANKS 3
             = Some \<lparr> rank = ''One Above All'', tier = Num 1 \<rparr>
         \<and> parseRankWithTier ''Diamond 2'' MARVEL_RIVALS_RANKS 3
             = Some \<lparr> rank = ''Diamond'', tier = Num 2 \<rparr>
         \<and> parseRankWithTier ''Nonsense 1'' MARVEL_RIVALS_RANKS 3 = None"
    by code_simp
  show ?thesis
    unfolding Let_def parts_def [symmetric] using a b c by blast
qed

theorem parseRankWithTier_longest_prefix_witness:
  "parseRankWithTier ''one above all 3 extra'' MARVEL_RIVALS_RANKS 3
     = Some \<lparr> rank = ''One Above All'', tier = Num 3 \<rparr>
   \<and> parseRankWithTier ''Top 500 9'' OVERWATCH_RANKS 5
     = Some \<lparr> rank = ''Top 500'', tier = Num 1 \<rparr>
   \<and> parseRankWithTier ''Mythic 2'' OVERWATCH_RANKS 5 = None"
proof -
  let ?P1 = "[''one'', ''above'', ''all'', ''3'', ''extra'']"
  let ?P2 = "[''Top'', ''500'', ''9'']"
  let ?P3 = "[''Mythic'', ''2'']"
  have p1: "splitWs (trim ''one above all 3 extra'') = ?P1"
    and p2: "splitWs (trim ''Top 500 9'') = ?P2"
    and p3: "splitWs (trim ''Mythic 2'') = ?P3"
    by code_simp+
  have e1: "find (rankMatches (joinWith '' '' (take 3 ?P1))) MARVEL_RIVALS_RANKS = Some ''One Above All''"
    and e2: "\<not> list_ex (rankMatches (joinWith '' '' (take 4 ?P1))) MARVEL_RIVALS_RANKS"
    and e3: "\<not> list_ex (rankMatches (joinWith '' '' (take 5 ?P1))) MARVEL_RIVALS_RANKS"
    and e4: "nth_opt ?P1 3 = Some ''3''"
    and e5: "parseInt ''3'' = Num 3"
    and f1: "find (rankMatches (joinWith '' '' (take 2 ?P2))) OVERWATCH_RANKS = Some ''Top 500''"
    and f2: "\<not> list_ex (rankMatches (joinWith '' '' (take 3 ?P2))) OVERWATCH_RANKS"
    and f3: "nth_opt ?P2 2 = Some ''9''"
    and f4: "parseInt ''9'' = Num 9"
    and g1: "\<not> list_ex (rankMatches (joinWith '' '' (take 1 ?P3))) OVERWATCH_RANKS"
    and g2: "\<not> list_ex (rankMatches (joinWith '' '' (take 2 ?P3))) OVERWATCH_RANKS"
    by code_simp+
  have h1: "\<forall>j. 3 < j \<and> j \<le> length ?P1
              \<longrightarrow> \<not> list_ex (rankMatches (joinWith '' '' (take j ?P1))) MARVEL_RIVALS_RANKS"
  proof (intro allI impI)
    fix j :: nat
    assume "3 < j \<and> j \<le> length ?P1"
    then have "j = 4 \<or> j = 5" by auto
    with e2 e3 show "\<not> list_ex (rankMatches (joinWith '' '' (take j ?P1))) MARVEL_RIVALS_RANKS"
      by blast
  qed
  have h2: "\<forall>j. 2 < j \<and> j \<le> length ?P2
              \<longrightarrow> \<not> list_ex (rankMatches (joinWith '' '' (take j ?P2))) OVERWATCH_RANKS"
  proof (intro allI impI)
    fix j :: nat
    assume "2 < j \<and> j \<le> length ?P2"
    then have "j = 3" by auto
    with f2 show "\<not> list_ex (rankMatches (joinWith '' '' (take j ?P2))) OVERWATCH_RANKS"
      by blast
  qed
  have h3: "\<forall>j. 1 \<le> j \<and> j \<le> length ?P3
              \<longrightarrow> \<not> list_ex (rankMatches (joinWith '' '' (take j ?P3))) OVERWATCH_RANKS"
  proof (intro allI impI)
    fix j :: nat
    assume "1 \<le> j \<and> j \<le> length ?P3"
    then have "j = 1 \<or> j = 2" by auto
    with g1 g2 show "\<not> list_ex (rankMatches (joinWith '' '' (take j ?P3))) OVERWATCH_RANKS"
      by blast
  qed
  have r1: "(1::nat) \<le> 3 \<and> 3 \<le> length ?P1" and r2: "(1::nat) \<le> 2 \<and> 2 \<le> length ?P2"
    and ne: "''One Above All'' \<noteq> []" "''Top 500'' \<noteq> []"
    by simp_all
  have "parseRankWithTier ''one above all 3 extra'' MARVEL_RIVALS_RANKS 3
     = Some \<lparr> rank = ''One Above All'',
              tier = (case nth_opt ?P1 3 of None \<Rightarrow> Num 1
                      | Some p \<Rightarrow> (case parseInt p of NaN \<Rightarrow> Num 1
                          | Num t \<Rightarrow> if 1 \<le> t \<and> t \<le> 3 then Num t else Num 1)) \<rparr>"
    using parseRankWithTier_longest_prefix [of "''one above all 3 extra''" MARVEL_RIVALS_RANKS 3]
      r1 e1 ne(1) h1
    unfolding Let_def p1 by blast
  then have A: "parseRankWithTier ''one above all 3 extra'' MARVEL_RIVALS_RANKS 3
     = Some \<lparr> rank = ''One Above All'', tier = Num 3 \<rparr>"
    by (simp add: e4 e5)
  have "parseRankWithTier ''Top 500 9'' OVERWATCH_RANKS 5
     = Some \<lparr> rank = ''Top 500'',
              tier = (case nth_opt ?P2 2 of None \<Rightarrow> Num 1
                      | Some p \<Rightarrow> (case parseInt p of NaN \<Rightarrow> Num 1
                          | Num t \<Rightarrow> if 1 \<le> t \<and> t \<le> 5 then Num t else Num 1)) \<rparr>"
    using parseRankWithTier_longest_prefix [of "''Top 500 9''" OVERWATCH_RANKS 5]
      r2 f1 ne(2) h2
    unfolding Let_def p2 by blast
  then have B: "parseRankWithTier ''Top 500 9'' OVERWATCH_RANKS 5
     = Some \<lparr> rank = ''Top 500'', tier = Num 1 \<rparr>"
    by (simp add: f3 f4)
  have C: "parseRankWithTier ''Mythic 2'' OVERWATCH_RANKS 5 = None"
    using parseRankWithTier_longest_prefix [of "''Mythic 2''" OVERWATCH_RANKS 5] h3
    unfolding Let_def p3 by blast
  from A B C show ?thesis by simp
qed




text \<open>
  C10. \<open>upsertPlayer\<close> leaves every record whose \<open>userId\<close> differs from the incoming one
  unchanged at its position. When no record has the incoming \<open>userId\<close>, the incoming record
  is appended at the end; when one has, the list keeps its length.
\<close>

theorem upsertPlayer_frame:
  "(\<forall>j<length ps. userId (ps ! j) \<noteq> userId inc \<longrightarrow>
      j < length (fst (upsertPlayer D ps inc)) \<and> fst (upsertPlayer D ps inc) ! j = ps ! j)
   \<and> ((\<forall>p\<in>set ps. userId p \<noteq> userId inc) \<longrightarrow> upsertPlayer D ps inc = (ps @ [inc], True))
   \<and> ((\<exists>p\<in>set ps. userId p = userId inc) \<longrightarrow> length (fst (upsertPlayer D ps inc)) = length ps)"
proof (cases "findIndex (\<lambda>p. userId p = userId inc) ps")
  case None
  then have "\<forall>p\<in>set ps. userId p \<noteq> userId inc"
    by (simp add: findIndex_None_iff)
  with None show ?thesis
    by (auto simp: upsertPlayer_def nth_append)
next
  case (Some i)
  then have i: "i < length ps" "userId (ps ! i) = userId inc"
    by (simp_all add: findIndex_Some_iff)
  then have "\<exists>p\<in>set ps. userId p = userId inc"
    by (metis nth_mem)
  with Some i show ?thesis
    by (auto simp: upsertPlayer_def Let_def nth_list_update)
qed

theorem upsertPlayer_frame_witness:
  "userId examplePlayerX \<noteq> userId examplePlayerY
   \<and> fst (upsertPlayer exampleDates [examplePlayerX, examplePlayerZ] examplePlayerY) ! 0 = examplePlayerX
   \<and> upsertPlayer exampleDates [examplePlayerX, examplePlayerZ] examplePlayerY
       = ([examplePlayerX, examplePlayerZ, examplePlayerY], True)
   \<and> userId examplePlayerZ \<noteq> userId exampleEqual
   \<and> fst (upsertPlayer exampleDates [examplePlayerX, examplePlayerZ] exampleEqual) ! 1 = examplePlayerZ
   \<and> length (fst (upsertPlayer exampleDates [examplePlayerX, examplePlayerZ] exampleEqual)) = 2"
  using upsertPlayer_frame [of "[examplePlayerX, examplePlayerZ]" examplePlayerY exampleDates]
    upsertPlayer_frame [of "[examplePlayerX, examplePlayerZ]" exampleEqual exampleDates]
  by (simp add: ex_defs)

end
